theory Spec2Isabelle
  imports Main "HOL-Library.Word"
begin

section \<open>Errors\<close>

text \<open>
  A Go \<open>error\<close> value is modelled by its kind and its message (\<open>err.Error()\<close>).
  \<open>Untyped\<close> is the kind of the values built by \<open>errors.New\<close> and \<open>fmt.Errorf\<close>
  (with the verb \<open>%s\<close>, which keeps the text of an inner error and nothing else);
  the other kinds are the error codes of the \<open>actions\<close> package and the typed
  errors of the store and of the transport. \<open>Panic\<close> marks a run-time panic (a nil
  dereference, the close of a closed channel), which in Go is not returned but
  unwinds the goroutine. A nil error is \<open>None\<close>.
\<close>

datatype error_kind =
    Untyped
  | InvalidArgument
  | NotFound
  | InternalErr
  | ConnectionError
  | ClosedError
  | Panic

datatype error = Error (kind: error_kind) (message: string)

definition errors_New :: "string \<Rightarrow> error" where
  "errors_New text = Error Untyped text"

text \<open>
  \<open>NewError(code, err)\<close> and \<open>NewErrorf(code, format)\<close> of the \<open>actions\<close> package: an
  error of the given code that carries the message of \<open>err\<close>, respectively the
  formatted text.
\<close>

definition NewError :: "error_kind \<Rightarrow> error \<Rightarrow> error" where
  "NewError code err = Error code (message err)"

definition NewErrorf :: "error_kind \<Rightarrow> string \<Rightarrow> error" where
  "NewErrorf code text = Error code text"

section \<open>Resources of the API (package v2)\<close>

record ObjectMeta =
  Name :: string
  Namespace :: string
  Labels :: "(string \<times> string) list"
  Annotations :: "(string \<times> string) list"

text \<open>An Extension embeds ObjectMeta and adds the URL of the extension service.\<close>

record Extension = ObjectMeta +
  URL :: string

text \<open>
  Modelled from the spec: \<open>ValidateName\<close> is not among the sources. The data model
  says that a name is non-empty and matches \<open>[A-Za-z0-9._-]+\<close>.
\<close>

definition name_char :: "char \<Rightarrow> bool" where
  "name_char c \<longleftrightarrow>
     c \<in> set (''abcdefghijklmnopqrstuvwxyz'' @ ''ABCDEFGHIJKLMNOPQRSTUVWXYZ''
               @ ''0123456789'' @ ''._-'')"

definition ValidateName :: "string \<Rightarrow> error option" where
  "ValidateName name =
     (if name = [] then Some (errors_New ''name must not be empty'')
      else if \<not> list_all name_char name
        then Some (errors_New ''name cannot contain spaces or special characters'')
      else None)"

text \<open>\<open>func (e *Extension) Validate() error\<close>: the three checks in the order of the source.\<close>

definition Extension_Validate :: "'a Extension_scheme \<Rightarrow> error option" where
  "Extension_Validate e =
     (case ValidateName (Name e) of
        Some err \<Rightarrow> Some err
      | None \<Rightarrow>
          if URL e = [] then Some (errors_New ''empty URL'')
          else if Namespace e = [] then Some (errors_New ''empty namespace'')
          else None)"

text \<open>\<open>FixtureExtension(name)\<close>: a valid extension for tests.\<close>

definition FixtureExtension :: "string \<Rightarrow> Extension" where
  "FixtureExtension name =
     \<lparr> Name = name, Namespace = ''default'', Labels = [], Annotations = [],
       URL = ''https://localhost:8080'' \<rparr>"

text \<open>
  An Entity embeds ObjectMeta. A Check carries the name of a proxy entity (empty when
  there is none). The declarations of these types are not among the sources: the
  fields are those that the session and the controllers read.
\<close>

record Entity = ObjectMeta +
  EntityClass :: string
  Subscriptions :: "string list"

record Check = ObjectMeta +
  ProxyEntityName :: string

record Metrics =
  Handlers :: "string list"

text \<open>
  An Event. Pointers that may be nil are options; the timestamp is a signed 64-bit
  Unix time (Go \<open>int64\<close>), a word read with \<open>sint\<close>.
\<close>

record Event =
  Timestamp :: "64 word"
  Entity :: "Entity option"
  Check :: "Check option"
  Metrics :: "Metrics option"

definition HasCheck :: "Event \<Rightarrow> bool" where
  "HasCheck e \<longleftrightarrow> Check e \<noteq> None"

definition HasMetrics :: "Event \<Rightarrow> bool" where
  "HasMetrics e \<longleftrightarrow> Metrics e \<noteq> None"

text \<open>
  Modelled from the spec: \<open>Event.Validate\<close> is not among the sources. The data model
  says that an Event is valid iff its Entity is non-null, its Timestamp is > 0, and
  either Check or Metrics is present.
\<close>

definition Event_Validate :: "Event \<Rightarrow> error option" where
  "Event_Validate e =
     (if Entity e = None then Some (errors_New ''event must contain an entity'')
      else if \<not> 0 < sint (Timestamp e) then Some (errors_New ''event must have a timestamp'')
      else if \<not> HasCheck e \<and> \<not> HasMetrics e
        then Some (errors_New ''event must contain a check or metrics'')
      else None)"

section \<open>Collaborators: message bus, store, and the effects a call has on them\<close>

datatype topic = TopicKeepalive | TopicEventRaw | SubscriptionTopic string string

text \<open>
  A subscription handle of the bus: the topic, the consumer, and what its \<open>Cancel()\<close>
  returns.
\<close>

datatype Subscription =
  Subscription (sub_topic: topic) (sub_consumer: string) (Cancel: "error option")

text \<open>
  The collaborators are interfaces: a record of functions, each giving the answer of
  the collaborator to a call. What a call does to the collaborator is recorded as an
  effect, so that a function of the source is modelled by its result together with
  the list of the effects it had, in order.
\<close>

record MessageBus =
  Publish :: "topic \<Rightarrow> Event \<Rightarrow> error option"
  Subscribe :: "topic \<Rightarrow> string \<Rightarrow> error + Subscription"

record EventStore =
  GetEventByEntityCheck :: "string \<Rightarrow> string \<Rightarrow> Event option \<times> error option"
  DeleteEventByEntityCheck :: "string \<Rightarrow> string \<Rightarrow> error option"

text \<open>A frame of the transport.\<close>

record Message =
  Type :: string
  Payload :: string

text \<open>
  Modelled from the spec: the package \<open>ringv2\<close> is not among the sources. The key of
  the ring of a subscription is \<open>Path(namespace, sub)\<close>, which is
  \<open>/rings/<escape(namespace)>/<escape(sub)>\<close>; the escaping is not given, so a path is
  kept as the pair it is built from.
\<close>

datatype ring_path = Path string string

datatype effect =
    StoreGetNamespace string
  | StoreGetEventByEntityCheck string string
  | StoreDeleteEventByEntityCheck string string
  | StoreGetEntity string string
  | StoreUpdateEntity Entity
  | BusPublish topic Event
  | BusSubscribe topic string
  | SubscriptionCancel Subscription
  | ConnSend Message
  | ConnClose
  | GoLaunch string
  | GaugeInc string
  | GaugeDec string
  | RingAdd ring_path string
  | RingRemove ring_path string bool
  | ContextCancel

fun is_store_call :: "effect \<Rightarrow> bool" where
  "is_store_call (StoreGetNamespace _) = True"
| "is_store_call (StoreGetEventByEntityCheck _ _) = True"
| "is_store_call (StoreDeleteEventByEntityCheck _ _) = True"
| "is_store_call (StoreGetEntity _ _) = True"
| "is_store_call (StoreUpdateEntity _) = True"
| "is_store_call _ = False"

fun is_publish :: "topic \<Rightarrow> effect \<Rightarrow> bool" where
  "is_publish t (BusPublish t' _) = (t' = t)"
| "is_publish t _ = False"

section \<open>EventController (package actions)\<close>

record EventController =
  store :: EventStore
  bus :: MessageBus

definition NewEventController :: "EventStore \<Rightarrow> MessageBus \<Rightarrow> EventController" where
  "NewEventController st b = \<lparr> store = st, bus = b \<rparr>"

text \<open>
  \<open>Get(ctx, entity, check)\<close>. The Go result \<open>(*Event, error)\<close> has exactly one non-nil
  component at each return of the source, so it is a sum here.
\<close>

definition Get :: "EventController \<Rightarrow> string \<Rightarrow> string \<Rightarrow> (error + Event) \<times> effect list" where
  "Get a entity check =
     (if entity = [] \<or> check = []
      then (Inl (NewErrorf InvalidArgument ''Get() requires both an entity and a check''), [])
      else
        case GetEventByEntityCheck (store a) entity check of
          (_, Some err) \<Rightarrow>
            (Inl (NewError InternalErr err), [StoreGetEventByEntityCheck entity check])
        | (None, None) \<Rightarrow>
            (Inl (NewErrorf NotFound []), [StoreGetEventByEntityCheck entity check])
        | (Some result, None) \<Rightarrow>
            (Inr result, [StoreGetEventByEntityCheck entity check]))"

text \<open>\<open>Delete(ctx, entity, check)\<close>: the lookup first, the deletion only when it found the event.\<close>

definition Delete :: "EventController \<Rightarrow> string \<Rightarrow> string \<Rightarrow> error option \<times> effect list" where
  "Delete a entity check =
     (if entity = [] \<or> check = []
      then (Some (NewErrorf InvalidArgument ''Delete() requires both an entity and a check''), [])
      else
        case GetEventByEntityCheck (store a) entity check of
          (_, Some err) \<Rightarrow>
            (Some (NewError InternalErr err), [StoreGetEventByEntityCheck entity check])
        | (None, None) \<Rightarrow>
            (Some (NewErrorf NotFound []), [StoreGetEventByEntityCheck entity check])
        | (Some result, None) \<Rightarrow>
            (case DeleteEventByEntityCheck (store a) entity check of
               Some err \<Rightarrow>
                 (Some (NewError InternalErr err),
                  [StoreGetEventByEntityCheck entity check,
                   StoreDeleteEventByEntityCheck entity check])
             | None \<Rightarrow>
                 (None,
                  [StoreGetEventByEntityCheck entity check,
                   StoreDeleteEventByEntityCheck entity check])))"

text \<open>
  \<open>CreateOrReplace(ctx, event)\<close>: validation, then one publish to the event pipeline.
  The store of the controller is not used.
\<close>

definition CreateOrReplace :: "EventController \<Rightarrow> Event \<Rightarrow> error option \<times> effect list" where
  "CreateOrReplace a event =
     (case Event_Validate event of
        Some err \<Rightarrow> (Some (NewError InvalidArgument err), [])
      | None \<Rightarrow>
          (case Publish (bus a) TopicEventRaw event of
             Some err \<Rightarrow> (Some (NewError InternalErr err), [BusPublish TopicEventRaw event])
           | None \<Rightarrow> (None, [BusPublish TopicEventRaw event])))"

section \<open>Agent session (package agentd): data\<close>

record SessionConfig =
  ContentType :: string
  Namespace :: string
  AgentAddr :: string
  AgentName :: string
  User :: string
  Subscriptions :: "string list"

text \<open>
  The namespace resource that \<open>GetNamespace\<close> returns; the session does not look at it.
\<close>

datatype NamespaceResource = FixtureNamespace string

text \<open>
  \<open>SessionStore\<close>: the entity store and the namespace store, with the operations that
  the external interfaces of the spec list. Each answer is the Go pair of a value that
  may be nil and an error that may be nil.
\<close>

record SessionStore =
  GetNamespace :: "string \<Rightarrow> NamespaceResource option \<times> error option"
  GetEntity :: "string \<Rightarrow> string \<Rightarrow> Entity option \<times> error option"
  CreateOrUpdateEntity :: "Entity \<Rightarrow> error option"

record CheckRequest =
  Config :: string
  Issued :: "64 word"

text \<open>What the bus puts on the check channel: a value of type \<open>interface{}\<close>.\<close>

datatype bus_item = IsCheckRequest CheckRequest | NotCheckRequest string

text \<open>
  A Go channel: the buffered elements in order, the capacity, and whether it has been
  closed. Closing a closed channel panics.
\<close>

record 'a chan =
  buf :: "'a list"
  cap :: nat
  closed :: bool

definition make_chan :: "nat \<Rightarrow> 'a chan" where
  "make_chan n = \<lparr> buf = [], cap = n, closed = False \<rparr>"

definition chan_send :: "'a chan \<Rightarrow> 'a \<Rightarrow> 'a chan" where
  "chan_send c x = c\<lparr> buf := buf c @ [x] \<rparr>"

definition chan_close :: "'a chan \<Rightarrow> 'a chan" where
  "chan_close c = c\<lparr> closed := True \<rparr>"

text \<open>
  The Session. The transport connection, the ring pool and the gauge are not fields
  of the model: they belong to the surroundings of the session (see the run of a
  session below). \<open>ctx_done\<close> says whether \<open>s.cancel\<close> has been called; \<open>wg\<close> is the
  counter of the wait group.
\<close>

record Session =
  cfg :: SessionConfig
  store :: SessionStore
  bus :: MessageBus
  unmarshal :: "string \<Rightarrow> error + Event"
  marshal :: "CheckRequest \<Rightarrow> error + string"
  stopping :: "unit chan"
  wg :: int
  sendq :: "Message chan"
  checkChannel :: "bus_item chan"
  subscriptions :: "Subscription chan"
  ctx_done :: bool

section \<open>Agent session: construction\<close>

text \<open>
  \<open>NewSession(cfg, conn, bus, store, unmarshal, marshal)\<close>. The only call to a
  collaborator is \<open>store.GetNamespace\<close>; on its error the deferred \<open>cancel\<close> runs and
  the error returned is a new one, formatted with \<open>%s\<close> from the namespace and the
  message of the store's error.
\<close>

definition NewSession ::
  "SessionConfig \<Rightarrow> MessageBus \<Rightarrow> SessionStore \<Rightarrow> (string \<Rightarrow> error + Event)
     \<Rightarrow> (CheckRequest \<Rightarrow> error + string) \<Rightarrow> (error + Session) \<times> effect list" where
  "NewSession c b st unm mar =
     (case snd (GetNamespace st (SessionConfig.Namespace c)) of
        Some err \<Rightarrow>
          (Inl (errors_New (''could not retrieve the namespace '' @ [CHR 0x27]
                   @ SessionConfig.Namespace c @ [CHR 0x27] @ '': '' @ message err)),
           [StoreGetNamespace (SessionConfig.Namespace c), ContextCancel])
      | None \<Rightarrow>
          (Inr \<lparr> cfg = c, store = st, bus = b, unmarshal = unm, marshal = mar,
                 stopping = make_chan 1, wg = 0, sendq = make_chan 10,
                 checkChannel = make_chan 100,
                 subscriptions = make_chan (length (SessionConfig.Subscriptions c)),
                 ctx_done = False \<rparr>,
           [StoreGetNamespace (SessionConfig.Namespace c)]))"

text \<open>
  The effects that the construction of a session must not have when it fails: a
  goroutine launched, a subscription to the bus, an insertion into a ring, the close
  of the connection, an increment of the session gauge.
\<close>

fun is_session_effect :: "effect \<Rightarrow> bool" where
  "is_session_effect (GoLaunch _) = True"
| "is_session_effect (BusSubscribe _ _) = True"
| "is_session_effect (RingAdd _ _) = True"
| "is_session_effect ConnClose = True"
| "is_session_effect (GaugeInc _) = True"
| "is_session_effect _ = False"

section \<open>Agent session: message handlers\<close>

text \<open>
  Modelled from the spec: \<open>addEntitySubscription\<close> is not among the sources. The
  handlers ensure that \<open>Entity.Subscriptions\<close> contains \<open>entity:<Entity.Name>\<close>; if
  absent, it is appended.
\<close>

definition GetEntitySubscription :: "string \<Rightarrow> string" where
  "GetEntitySubscription entityName = ''entity:'' @ entityName"

definition addEntitySubscription :: "string \<Rightarrow> string list \<Rightarrow> string list" where
  "addEntitySubscription entityName subs =
     (if GetEntitySubscription entityName \<in> set subs then subs
      else subs @ [GetEntitySubscription entityName])"

text \<open>
  Modelled from the spec: \<open>getProxyEntity\<close> is not among the sources. If the event has
  a Check with a ProxyEntityName, the proxy Entity is resolved in the store, or created
  there when the store has none, and substituted into the Event; a store error is
  returned. The spec does not say which fields a created proxy entity has beyond its
  name and namespace: it is created here with the class \<open>proxy\<close> and no subscription.
  The handler calls it after the validation, which rejects an event without entity.
\<close>

definition getProxyEntity :: "Event \<Rightarrow> SessionStore \<Rightarrow> (error + Event) \<times> effect list" where
  "getProxyEntity event st =
     (case (Check event, Entity event) of
        (None, _) \<Rightarrow> (Inr event, [])
      | (Some c, None) \<Rightarrow> (Inl (Error Panic ''nil pointer dereference''), [])
      | (Some c, Some en) \<Rightarrow>
          if ProxyEntityName c = [] then (Inr event, [])
          else
            (case GetEntity st (ObjectMeta.Namespace en) (ProxyEntityName c) of
               (_, Some err) \<Rightarrow>
                 (Inl err, [StoreGetEntity (ObjectMeta.Namespace en) (ProxyEntityName c)])
             | (Some proxy, None) \<Rightarrow>
                 (Inr (event\<lparr> Entity := Some proxy \<rparr>),
                  [StoreGetEntity (ObjectMeta.Namespace en) (ProxyEntityName c)])
             | (None, None) \<Rightarrow>
                 (let proxy = \<lparr> Name = ProxyEntityName c,
                                 ObjectMeta.Namespace = ObjectMeta.Namespace en,
                                 Labels = [], Annotations = [],
                                 EntityClass = ''proxy'', Entity.Subscriptions = [] \<rparr>
                  in case CreateOrUpdateEntity st proxy of
                       Some err \<Rightarrow>
                         (Inl err,
                          [StoreGetEntity (ObjectMeta.Namespace en) (ProxyEntityName c),
                           StoreUpdateEntity proxy])
                     | None \<Rightarrow>
                         (Inr (event\<lparr> Entity := Some proxy \<rparr>),
                          [StoreGetEntity (ObjectMeta.Namespace en) (ProxyEntityName c),
                           StoreUpdateEntity proxy]))))"

text \<open>
  \<open>handleKeepalive(ctx, payload)\<close>: decode, require an entity, reject the timestamp 0,
  add the entity subscription, publish to \<open>TopicKeepalive\<close> and return what the bus
  returns.
\<close>

definition handleKeepalive :: "Session \<Rightarrow> string \<Rightarrow> error option \<times> effect list" where
  "handleKeepalive s payload =
     (case unmarshal s payload of
        Inl err \<Rightarrow> (Some err, [])
      | Inr keepalive \<Rightarrow>
          (case Entity keepalive of
             None \<Rightarrow> (Some (errors_New ''keepalive does not contain an entity''), [])
           | Some en \<Rightarrow>
               if Timestamp keepalive = 0
               then (Some (errors_New ''keepalive contains invalid timestamp''), [])
               else
                 (let published = keepalive\<lparr> Entity := Some (en\<lparr> Entity.Subscriptions :=
                        addEntitySubscription (Name en) (Entity.Subscriptions en) \<rparr>) \<rparr>
                  in (Publish (bus s) TopicKeepalive published,
                      [BusPublish TopicKeepalive published]))))"

text \<open>
  \<open>handleEvent(ctx, payload)\<close>: decode, validate, resolve the proxy entity when the
  event has a check, add the entity subscription, publish to \<open>TopicEventRaw\<close>.
\<close>

definition handleEvent :: "Session \<Rightarrow> string \<Rightarrow> error option \<times> effect list" where
  "handleEvent s payload =
     (case unmarshal s payload of
        Inl err \<Rightarrow> (Some err, [])
      | Inr event \<Rightarrow>
          (case Event_Validate event of
             Some err \<Rightarrow> (Some err, [])
           | None \<Rightarrow>
               (case (if HasCheck event then getProxyEntity event (store s)
                      else (Inr event, [])) of
                  (Inl err, effs) \<Rightarrow> (Some err, effs)
                | (Inr event', effs) \<Rightarrow>
                    (case Entity event' of
                       None \<Rightarrow> (Some (Error Panic ''nil pointer dereference''), effs)
                     | Some en \<Rightarrow>
                         (let published = event'\<lparr> Entity := Some (en\<lparr> Entity.Subscriptions :=
                                addEntitySubscription (Name en) (Entity.Subscriptions en) \<rparr>) \<rparr>
                          in (Publish (bus s) TopicEventRaw published,
                              effs @ [BusPublish TopicEventRaw published]))))))"

text \<open>The events that a handler call published to a topic, in order.\<close>

fun published_on :: "topic \<Rightarrow> effect list \<Rightarrow> Event list" where
  "published_on t [] = []"
| "published_on t (BusPublish t' ev # effs) =
     (if t' = t then ev # published_on t effs else published_on t effs)"
| "published_on t (_ # effs) = published_on t effs"

section \<open>Agent session: Start, the pumps and Stop\<close>

text \<open>
  \<open>Handle\<close> of the message handler: the table built by \<open>newSessionHandler\<close>, which
  maps the type \<open>keepalive\<close> to \<open>handleKeepalive\<close> and the type \<open>event\<close> to
  \<open>handleEvent\<close>; a message of another type has no handler, which is an error that
  the receive pump logs.
\<close>

definition Handle :: "Session \<Rightarrow> string \<Rightarrow> string \<Rightarrow> error option \<times> effect list" where
  "Handle s ty payload =
     (if ty = ''keepalive'' then handleKeepalive s payload
      else if ty = ''event'' then handleEvent s payload
      else (Some (errors_New ''no handler for message type''), []))"

text \<open>
  The session runs three goroutines beside the callers of \<open>Stop\<close>, so its run is a
  sequence of steps, each the next statement of one of them. The position of a pump:
  \<^item> \<open>NotStarted\<close>: before \<open>Start\<close>;
  \<^item> \<open>Loop\<close>: at the \<open>select\<close> at the head of its loop;
  \<^item> \<open>Receiving\<close>: the receive pump, in \<open>conn.Receive()\<close>;
  \<^item> \<open>Sending msg\<close>: the subscription pump, at \<open>s.sendq <- msg\<close>;
  \<^item> \<open>Deferred\<close>: the loop has returned, the deferred \<open>wg.Done()\<close> is next;
  \<^item> \<open>DeferSelect\<close>: the receive pump, at the \<open>select\<close> of its deferred function;
  \<^item> \<open>InStop\<close>: the receive pump, in the \<open>s.Stop()\<close> of its deferred function;
  \<^item> \<open>Exited\<close>: the goroutine has returned.
\<close>

datatype pump_pc =
  NotStarted | Loop | Receiving | Sending Message | Deferred | DeferSelect | InStop | Exited

text \<open>
  Who calls \<open>Stop\<close>: a caller outside the session (numbered), the deferred function of
  \<open>Start\<close> after a failed subscription, or the deferred function of the receive pump.
\<close>

datatype caller = External nat | FromStart | FromRecvPump

text \<open>
  The position of a call of \<open>Stop\<close>, named by the statement that is next:
  \<open>Called\<close> (the decrement of the gauge), \<open>CloseStopping\<close>, \<open>Wait\<close> (\<open>s.wg.Wait()\<close>),
  \<open>Drain\<close> (the range over \<open>s.subscriptions\<close>), \<open>CloseCheck\<close>
  (\<open>close(s.checkChannel)\<close>), \<open>Rings subs\<close> (the loop over the subscriptions of the
  configuration, \<open>subs\<close> still to do), and the two ends \<open>Returned\<close> and \<open>Panicked\<close>.
\<close>

datatype stop_pc =
  NotCalled | Called | CloseStopping | Wait | Drain | CloseCheck | Rings "string list"
  | Returned | Panicked

text \<open>
  The state of a run: the session, the positions of the pumps and of the calls of
  \<open>Stop\<close>, the session gauge by namespace, the members of every ring, and the effects
  so far, the latest last.
\<close>

record run_state =
  sess :: Session
  recv_pc :: pump_pc
  send_pc :: pump_pc
  sub_pc :: pump_pc
  stop_pc :: "caller \<Rightarrow> stop_pc"
  gauge :: "string \<Rightarrow> int"
  rings :: "ring_path \<Rightarrow> string list"
  trace :: "effect list"

definition initial :: "Session \<Rightarrow> (string \<Rightarrow> int) \<Rightarrow> (ring_path \<Rightarrow> string list) \<Rightarrow> run_state" where
  "initial s g rho =
     \<lparr> sess = s, recv_pc = NotStarted, send_pc = NotStarted, sub_pc = NotStarted,
       stop_pc = (\<lambda>c. NotCalled), gauge = g, rings = rho, trace = [] \<rparr>"

text \<open>
  The loop of \<open>Start\<close> over the subscriptions of the configuration: empty ones are
  skipped, the first error of \<open>Subscribe\<close> ends the loop, and each handle is sent on
  \<open>s.subscriptions\<close>, whose capacity is the number of subscriptions.
\<close>

fun subscribe_loop :: "Session \<Rightarrow> string list \<Rightarrow> (error option \<times> Session) \<times> effect list" where
  "subscribe_loop s [] = ((None, s), [])"
| "subscribe_loop s (sub # subs) =
     (if sub = [] then subscribe_loop s subs
      else
        let topic = SubscriptionTopic (Namespace (cfg s)) sub;
            agentName = Namespace (cfg s) @ '':'' @ AgentName (cfg s)
        in case Subscribe (bus s) topic agentName of
             Inl err \<Rightarrow> ((Some err, s), [BusSubscribe topic agentName])
           | Inr subscription \<Rightarrow>
               (let (res, effs) =
                      subscribe_loop (s\<lparr> subscriptions := chan_send (subscriptions s) subscription \<rparr>) subs
                in (res, BusSubscribe topic agentName # effs)))"

text \<open>
  \<open>Start\<close>: the gauge goes up, a new wait group counts the three pumps, the pumps are
  launched, and the loop subscribes. After the loop \<open>s.subscriptions\<close> is closed. When
  a subscription fails the channel is left open and the deferred function calls
  \<open>Stop\<close>; the error is what \<open>Start\<close> returns once that \<open>Stop\<close> has returned. The steps
  of \<open>Start\<close> are taken together, before any step of a pump: the pumps touch neither
  the bus subscriptions nor \<open>s.subscriptions\<close>.
\<close>

definition Start :: "run_state \<Rightarrow> error option \<times> run_state" where
  "Start r =
     (let ns = Namespace (cfg (sess r));
          r1 = r\<lparr> gauge := (gauge r)(ns := gauge r ns + 1),
                  recv_pc := Loop, send_pc := Loop, sub_pc := Loop,
                  trace := trace r @ [GaugeInc ns, GoLaunch ''sendPump'', GoLaunch ''recvPump'',
                                      GoLaunch ''subPump''] \<rparr>
      in case subscribe_loop ((sess r)\<lparr> wg := 3 \<rparr>) (Subscriptions (cfg (sess r))) of
           ((Some err, s'), effs) \<Rightarrow>
             (Some err,
              r1\<lparr> sess := s', trace := trace r1 @ effs,
                  stop_pc := (stop_pc r1)(FromStart := Called) \<rparr>)
         | ((None, s'), effs) \<Rightarrow>
             (None,
              r1\<lparr> sess := s'\<lparr> subscriptions := chan_close (subscriptions s') \<rparr>,
                  trace := trace r1 @ effs \<rparr>))"

text \<open>
  What the surroundings do and answer is part of the step: the result of
  \<open>conn.Receive()\<close>, the result of \<open>conn.Send\<close>, the item that the bus delivers on the
  check channel, the result of \<open>ring.Remove\<close>, and a change of the answers of the bus
  and of the store, which are stateful.
\<close>

datatype recv_result = Received Message | RecvError error

datatype action =
    ARecvSelect
  | ARecvReturn recv_result
  | ARecvDone
  | ARecvDeferSelect
  | ASendMsg "error option"
  | ASendStop
  | ASendDone
  | ASubCheck
  | ASubEnqueue
  | ASubStop
  | ASubDone
  | ABusDeliver bus_item
  | AEnv MessageBus SessionStore
  | ACall nat
  | AStop caller
  | ARingRemove caller "error option"

definition is_disconnect :: "error \<Rightarrow> bool" where
  "is_disconnect err \<longleftrightarrow> kind err = ConnectionError \<or> kind err = ClosedError"

definition log :: "effect list \<Rightarrow> run_state \<Rightarrow> run_state" where
  "log effs r = r\<lparr> trace := trace r @ effs \<rparr>"

definition wg_Done :: "run_state \<Rightarrow> run_state" where
  "wg_Done r = r\<lparr> sess := (sess r)\<lparr> wg := wg (sess r) - 1 \<rparr> \<rparr>"

text \<open>
  A panic in \<open>Stop\<close> runs the deferred \<open>s.cancel()\<close> and ends the call.
\<close>

definition Stop_panic :: "caller \<Rightarrow> run_state \<Rightarrow> run_state" where
  "Stop_panic c r =
     log [ContextCancel]
       (r\<lparr> sess := (sess r)\<lparr> ctx_done := True \<rparr>, stop_pc := (stop_pc r)(c := Panicked) \<rparr>)"

text \<open>
  The next statement of the call of \<open>Stop\<close> by \<open>c\<close>. \<open>None\<close> means that the call
  cannot go on in this state: it has not been made, it has ended, or it is blocked
  (in \<open>wg.Wait()\<close> while a pump has not called \<open>Done\<close>, or in the range over
  \<open>s.subscriptions\<close> while the channel is empty and open).
\<close>

definition Stop_step :: "caller \<Rightarrow> run_state \<Rightarrow> run_state option" where
  "Stop_step c r =
     (let s = sess r; ns = Namespace (cfg s) in
      case stop_pc r c of
        Called \<Rightarrow>
          Some (log [GaugeDec ns]
                  (r\<lparr> gauge := (gauge r)(ns := gauge r ns - 1),
                      stop_pc := (stop_pc r)(c := CloseStopping) \<rparr>))
      | CloseStopping \<Rightarrow>
          if closed (stopping s) then Some (Stop_panic c r)
          else Some (r\<lparr> sess := s\<lparr> stopping := chan_close (stopping s) \<rparr>,
                         stop_pc := (stop_pc r)(c := Wait) \<rparr>)
      | Wait \<Rightarrow>
          if wg s = 0 then Some (r\<lparr> stop_pc := (stop_pc r)(c := Drain) \<rparr>) else None
      | Drain \<Rightarrow>
          (case buf (subscriptions s) of
             sub # rest \<Rightarrow>
               Some (log [SubscriptionCancel sub]
                       (r\<lparr> sess := s\<lparr> subscriptions := (subscriptions s)\<lparr> buf := rest \<rparr> \<rparr> \<rparr>))
           | [] \<Rightarrow>
               if closed (subscriptions s)
               then Some (r\<lparr> stop_pc := (stop_pc r)(c := CloseCheck) \<rparr>)
               else None)
      | CloseCheck \<Rightarrow>
          if closed (checkChannel s) then Some (Stop_panic c r)
          else Some (r\<lparr> sess := s\<lparr> checkChannel := chan_close (checkChannel s) \<rparr>,
                         stop_pc := (stop_pc r)(c := Rings (Subscriptions (cfg s))) \<rparr>)
      | Rings [] \<Rightarrow>
          Some (log [ContextCancel]
                  (r\<lparr> sess := s\<lparr> ctx_done := True \<rparr>,
                      stop_pc := (stop_pc r)(c := Returned) \<rparr>))
      | _ \<Rightarrow> None)"

text \<open>
  Modelled from the spec: \<open>ring.Remove\<close> of the package \<open>ringv2\<close>, which is not among
  the sources. \<open>Remove(value)\<close> drops the value from the ring and is idempotent; a
  store error is returned, and then the ring is as before. \<open>Stop\<close> logs the error and
  goes on with the next subscription.
\<close>

definition ring_Remove :: "caller \<Rightarrow> error option \<Rightarrow> run_state \<Rightarrow> run_state option" where
  "ring_Remove c res r =
     (let s = sess r; path = Path (Namespace (cfg s)) in
      case stop_pc r c of
        Rings (sub # rest) \<Rightarrow>
          Some (log [RingRemove (path sub) (AgentName (cfg s)) (res = None)]
                  (r\<lparr> rings := (if res = None
                                 then (rings r)(path sub :=
                                        removeAll (AgentName (cfg s)) (rings r (path sub)))
                                 else rings r),
                      stop_pc := (stop_pc r)(c := Rings rest) \<rparr>))
      | _ \<Rightarrow> None)"

text \<open>
  One step of the run. For the pumps: \<open>recvPump\<close> (the select, the return of
  \<open>Receive\<close>, and the two statements of the deferred function), \<open>sendPump\<close> (the two
  cases of its select, and the deferred \<open>Done\<close>), \<open>subPump\<close> (the two cases of its
  select, the send on \<open>s.sendq\<close>, and the deferred \<open>Done\<close>). A case of a select can
  be taken when its channel is ready: a receive when the channel has an element or is
  closed, a send when the buffer has room.
\<close>

fun step :: "action \<Rightarrow> run_state \<Rightarrow> run_state option" where
  "step ARecvSelect r =
     (if recv_pc r = Loop
      then Some (r\<lparr> recv_pc := (if closed (stopping (sess r)) then Deferred else Receiving) \<rparr>)
      else None)"
| "step (ARecvReturn (RecvError err)) r =
     (if recv_pc r = Receiving
      then Some (r\<lparr> recv_pc := (if is_disconnect err then Deferred else Loop) \<rparr>)
      else None)"
| "step (ARecvReturn (Received msg)) r =
     (if recv_pc r = Receiving
      then Some (log (snd (Handle (sess r) (Type msg) (Payload msg))) (r\<lparr> recv_pc := Loop \<rparr>))
      else None)"
| "step ARecvDone r =
     (if recv_pc r = Deferred then Some (wg_Done (r\<lparr> recv_pc := DeferSelect \<rparr>)) else None)"
| "step ARecvDeferSelect r =
     (if recv_pc r = DeferSelect
      then Some (if closed (stopping (sess r)) then r\<lparr> recv_pc := Exited \<rparr>
                 else r\<lparr> recv_pc := InStop, stop_pc := (stop_pc r)(FromRecvPump := Called) \<rparr>)
      else None)"
| "step (ASendMsg res) r =
     (if send_pc r = Loop
      then (case buf (sendq (sess r)) of
              [] \<Rightarrow> None
            | msg # rest \<Rightarrow>
                Some (log [ConnSend msg]
                        (r\<lparr> sess := (sess r)\<lparr> sendq := (sendq (sess r))\<lparr> buf := rest \<rparr> \<rparr>,
                            send_pc := (case res of
                                          None \<Rightarrow> Loop
                                        | Some err \<Rightarrow> if is_disconnect err then Deferred else Loop) \<rparr>)))
      else None)"
| "step ASendStop r =
     (if send_pc r = Loop \<and> closed (stopping (sess r))
      then Some (r\<lparr> send_pc := Deferred \<rparr>) else None)"
| "step ASendDone r =
     (if send_pc r = Deferred then Some (wg_Done (r\<lparr> send_pc := Exited \<rparr>)) else None)"
| "step ASubCheck r =
     (if sub_pc r = Loop
      then (case buf (checkChannel (sess r)) of
              [] \<Rightarrow> if closed (checkChannel (sess r)) then Some r else None
            | c # rest \<Rightarrow>
                (let r' = r\<lparr> sess := (sess r)\<lparr> checkChannel := (checkChannel (sess r))\<lparr> buf := rest \<rparr> \<rparr> \<rparr>
                 in case c of
                      NotCheckRequest _ \<Rightarrow> Some r'
                    | IsCheckRequest request \<Rightarrow>
                        (case marshal (sess r) request of
                           Inl err \<Rightarrow> Some r'
                         | Inr configBytes \<Rightarrow>
                             Some (r'\<lparr> sub_pc := Sending \<lparr> Type = ''check_request'',
                                                              Payload = configBytes \<rparr> \<rparr>))))
      else None)"
| "step ASubEnqueue r =
     (case sub_pc r of
        Sending msg \<Rightarrow>
          if length (buf (sendq (sess r))) < cap (sendq (sess r))
          then Some (r\<lparr> sess := (sess r)\<lparr> sendq := chan_send (sendq (sess r)) msg \<rparr>,
                         sub_pc := Loop \<rparr>)
          else None
      | _ \<Rightarrow> None)"
| "step ASubStop r =
     (if sub_pc r = Loop \<and> closed (stopping (sess r))
      then Some (r\<lparr> sub_pc := Deferred \<rparr>) else None)"
| "step ASubDone r =
     (if sub_pc r = Deferred then Some (wg_Done (r\<lparr> sub_pc := Exited \<rparr>)) else None)"
| "step (ABusDeliver item) r =
     (if \<not> closed (checkChannel (sess r))
         \<and> length (buf (checkChannel (sess r))) < cap (checkChannel (sess r))
      then Some (r\<lparr> sess := (sess r)\<lparr> checkChannel := chan_send (checkChannel (sess r)) item \<rparr> \<rparr>)
      else None)"
| "step (AEnv b st) r = Some (r\<lparr> sess := (sess r)\<lparr> bus := b, store := st \<rparr> \<rparr>)"
| "step (ACall n) r =
     (if stop_pc r (External n) = NotCalled
      then Some (r\<lparr> stop_pc := (stop_pc r)(External n := Called) \<rparr>) else None)"
| "step (AStop c) r = Stop_step c r"
| "step (ARingRemove c res) r = ring_Remove c res r"

text \<open>A run: the steps in order; \<open>None\<close> when one of them cannot be taken.\<close>

fun run :: "action list \<Rightarrow> run_state \<Rightarrow> run_state option" where
  "run [] r = Some r"
| "run (a # as) r = (case step a r of None \<Rightarrow> None | Some r' \<Rightarrow> run as r')"

text \<open>The messages that the session has published to the bus or sent on the transport.\<close>

fun is_message :: "effect \<Rightarrow> bool" where
  "is_message (BusPublish _ _) = True"
| "is_message (ConnSend _) = True"
| "is_message _ = False"

definition messages :: "run_state \<Rightarrow> effect list" where
  "messages r = filter is_message (trace r)"

section \<open>Example values\<close>

text \<open>
  A bus that accepts everything, a store that knows the namespace \<open>default\<close> and the
  entity \<open>router-7\<close>, a decoder for three payloads, and a session built from them.
\<close>

definition example_bus :: MessageBus where
  "example_bus = \<lparr> Publish = (\<lambda>t ev. None), Subscribe = (\<lambda>t c. Inr (Subscription t c None)) \<rparr>"

definition example_entity :: "string \<Rightarrow> string list \<Rightarrow> Entity" where
  "example_entity n subs =
     \<lparr> Name = n, ObjectMeta.Namespace = ''default'', Labels = [], Annotations = [],
       EntityClass = ''agent'', Entity.Subscriptions = subs \<rparr>"

definition example_store :: SessionStore where
  "example_store =
     \<lparr> GetNamespace = (\<lambda>n. if n = ''default'' then (Some (FixtureNamespace n), None)
                            else (None, Some (Error NotFound ''key not found''))),
       GetEntity = (\<lambda>ns n. if n = ''router-7'' then (Some (example_entity n [''snmp'']), None)
                            else (None, None)),
       CreateOrUpdateEntity = (\<lambda>en. None) \<rparr>"

definition example_check :: "string \<Rightarrow> Check" where
  "example_check proxy =
     \<lparr> Name = ''check-cpu'', ObjectMeta.Namespace = ''default'', Labels = [], Annotations = [],
       ProxyEntityName = proxy \<rparr>"

definition example_event :: "64 word \<Rightarrow> string \<Rightarrow> Event" where
  "example_event ts proxy =
     \<lparr> Timestamp = ts, Entity = Some (example_entity ''srv-1'' [''linux'']),
       Check = Some (example_check proxy), Metrics = None \<rparr>"

definition example_unmarshal :: "string \<Rightarrow> error + Event" where
  "example_unmarshal payload =
     (if payload = ''keepalive'' then Inr (example_event 1700000000 [])
      else if payload = ''negative'' then Inr (example_event (- 1) [])
      else if payload = ''proxy'' then Inr (example_event 1700000000 ''router-7'')
      else Inl (errors_New ''invalid character''))"

definition example_config :: "string \<Rightarrow> string list \<Rightarrow> SessionConfig" where
  "example_config ns subs =
     \<lparr> ContentType = ''application/json'', Namespace = ns, AgentAddr = ''10.0.0.1:3030'',
       AgentName = ''srv-1'', User = ''agent'', Subscriptions = subs \<rparr>"

definition example_session :: Session where
  "example_session =
     \<lparr> cfg = example_config ''default'' [''linux''], store = example_store, bus = example_bus,
       unmarshal = example_unmarshal, marshal = (\<lambda>r. Inr (Config r)),
       stopping = make_chan 1, wg = 0, sendq = make_chan 10, checkChannel = make_chan 100,
       subscriptions = make_chan 1, ctx_done = False \<rparr>"

definition example_controller :: "(string \<Rightarrow> string \<Rightarrow> Event option \<times> error option) \<Rightarrow> EventController" where
  "example_controller lookup =
     NewEventController \<lparr> GetEventByEntityCheck = lookup, DeleteEventByEntityCheck = (\<lambda>en ch. None) \<rparr>
       example_bus"


section \<open>RBAC authorizer\<close>

text \<open>
  Modelled from the spec: the package \<open>rbac\<close> and the RBAC types of the API are not among
  the sources, only the test of the authorization middleware and the store it seeds
  are. The data model and the algorithm are those of sections 3 and 4.F of the spec.
  A ClusterRole has the fields of a Role and a ClusterRoleBinding those of a
  RoleBinding, with an empty namespace.
\<close>

record Rule =
  Verbs :: "string list"
  Resources :: "string list"
  ResourceNames :: "string list"
  APIGroups :: "string list"

record Role = ObjectMeta +
  Rules :: "Rule list"

type_synonym ClusterRole = Role

record RoleRef =
  Type :: string
  Name :: string

record Subject =
  Type :: string
  Name :: string

record RoleBinding = ObjectMeta +
  RoleRef :: RoleRef
  Subjects :: "Subject list"

type_synonym ClusterRoleBinding = RoleBinding

record Claims =
  Subject :: string
  Groups :: "string list"

record Attributes =
  Verb :: string
  APIGroup :: string
  Resource :: string
  ResourceName :: string
  Namespace :: string
  User :: Claims

record RBACStore =
  ListClusterRoleBindings :: "ClusterRoleBinding list \<times> error option"
  ListRoleBindings :: "string \<Rightarrow> RoleBinding list \<times> error option"
  GetClusterRole :: "string \<Rightarrow> ClusterRole option \<times> error option"
  GetRole :: "string \<Rightarrow> string \<Rightarrow> Role option \<times> error option"

text \<open>
  The store as the authorizer reads it: the lists of bindings and the lookups of
  roles, each answer with the error that the store may return.
\<close>

datatype decision = Allow | Deny

text \<open>
  A binding matches when its Subjects intersect the user and the groups of the
  claims, matched by type and name.
\<close>

definition matchesUser :: "Claims \<Rightarrow> Subject list \<Rightarrow> bool" where
  "matchesUser user subjects \<longleftrightarrow>
     (\<exists>sub \<in> set subjects.
        (Subject.Type sub = ''User'' \<and> Subject.Name sub = Subject user)
        \<or> (Subject.Type sub = ''Group'' \<and> Subject.Name sub \<in> set (Groups user)))"

text \<open>The four conditions under which a rule allows a request.\<close>

definition ruleAllows :: "Attributes \<Rightarrow> Rule \<Rightarrow> bool" where
  "ruleAllows attrs rule \<longleftrightarrow>
     (Verb attrs \<in> set (Verbs rule) \<or> ''*'' \<in> set (Verbs rule))
     \<and> (Resource attrs \<in> set (Resources rule) \<or> ''*'' \<in> set (Resources rule))
     \<and> (ResourceNames rule = [] \<or> ''*'' \<in> set (ResourceNames rule)
          \<or> ResourceName attrs \<in> set (ResourceNames rule))
     \<and> (APIGroups rule = [] \<or> ''*'' \<in> set (APIGroups rule)
          \<or> APIGroup attrs \<in> set (APIGroups rule))"

text \<open>
  The role that a binding refers to: a ClusterRole by name, or a Role in the
  namespace of the binding. A role that is missing, or a reference of another type,
  is a failed resolution, and the binding is skipped.
\<close>

definition resolveRoleRef :: "RBACStore \<Rightarrow> RoleBinding \<Rightarrow> Role option \<times> error option" where
  "resolveRoleRef st b =
     (if RoleRef.Type (RoleRef b) = ''ClusterRole'' then GetClusterRole st (RoleRef.Name (RoleRef b))
      else if RoleRef.Type (RoleRef b) = ''Role''
        then GetRole st (ObjectMeta.Namespace b) (RoleRef.Name (RoleRef b))
      else (None, None))"

text \<open>
  Step 1: all ClusterRoleBindings, then the RoleBindings of the namespace of the
  request when it has one. A failure of the store is an internal error.
\<close>

definition candidate_bindings :: "RBACStore \<Rightarrow> Attributes \<Rightarrow> error + RoleBinding list" where
  "candidate_bindings st attrs =
     (case ListClusterRoleBindings st of
        (_, Some err) \<Rightarrow> Inl (NewError InternalErr err)
      | (crbs, None) \<Rightarrow>
          if Namespace attrs = [] then Inr crbs
          else (case ListRoleBindings st (Namespace attrs) of
                  (_, Some err) \<Rightarrow> Inl (NewError InternalErr err)
                | (rbs, None) \<Rightarrow> Inr (crbs @ rbs)))"

text \<open>
  Steps 2 and 3: the bindings in order; the first rule that allows gives Allow, and
  no rule that allows is Deny.
\<close>

fun authorize_bindings :: "RBACStore \<Rightarrow> Attributes \<Rightarrow> RoleBinding list \<Rightarrow> error + decision" where
  "authorize_bindings st attrs [] = Inr Deny"
| "authorize_bindings st attrs (b # bs) =
     (if \<not> matchesUser (User attrs) (Subjects b) then authorize_bindings st attrs bs
      else
        case resolveRoleRef st b of
          (_, Some err) \<Rightarrow> Inl (NewError InternalErr err)
        | (None, None) \<Rightarrow> authorize_bindings st attrs bs
        | (Some role, None) \<Rightarrow>
            if \<exists>rule \<in> set (Rules role). ruleAllows attrs rule then Inr Allow
            else authorize_bindings st attrs bs)"

definition Authorize :: "RBACStore \<Rightarrow> Attributes \<Rightarrow> error + decision" where
  "Authorize st attrs =
     (case candidate_bindings st attrs of
        Inl err \<Rightarrow> Inl err
      | Inr bs \<Rightarrow> authorize_bindings st attrs bs)"

text \<open>
  The resources that \<open>seedStore\<close> of the middleware test adds to the store: the
  bindings of the groups local-admins, admins, editors, viewers and foo-viewers, and
  the role foo-viewer. The cluster roles come from the initial seeds, which are not
  among the sources, so the example store has none. \<open>request\<close> builds the attributes
  of a request of the user \<open>foo\<close> of the test, member of one group.
\<close>

definition group_binding :: "string \<Rightarrow> string \<Rightarrow> string \<Rightarrow> string \<Rightarrow> string \<Rightarrow> RoleBinding" where
  "group_binding name ns ty role grp =
     \<lparr> ObjectMeta.Name = name, ObjectMeta.Namespace = ns, Labels = [], Annotations = [],
       RoleRef = \<lparr> RoleRef.Type = ty, RoleRef.Name = role \<rparr>,
       Subjects = [\<lparr> Subject.Type = ''Group'', Subject.Name = grp \<rparr>] \<rparr>"

definition fooViewerRole :: Role where
  "fooViewerRole =
     \<lparr> ObjectMeta.Name = ''foo-viewer'', ObjectMeta.Namespace = ''default'', Labels = [],
       Annotations = [],
       Rules = [\<lparr> Verbs = [''get''], Resources = [''checks''], ResourceNames = [''foo''],
                  APIGroups = [] \<rparr>] \<rparr>"

definition seedStore :: RBACStore where
  "seedStore =
     \<lparr> ListClusterRoleBindings = ([group_binding ''admin'' [] ''ClusterRole'' ''admin'' ''local-admins''], None),
       ListRoleBindings = (\<lambda>ns. if ns = ''default''
          then ([group_binding ''admin'' ''default'' ''ClusterRole'' ''admin'' ''admins'',
                 group_binding ''edit'' ''default'' ''ClusterRole'' ''edit'' ''editors'',
                 group_binding ''view'' ''default'' ''ClusterRole'' ''view'' ''viewers'',
                 group_binding ''foo-viewer'' ''default'' ''Role'' ''foo-viewer'' ''foo-viewers''], None)
          else ([], None)),
       GetClusterRole = (\<lambda>name. (None, None)),
       GetRole = (\<lambda>ns name. if ns = ''default'' \<and> name = ''foo-viewer''
          then (Some fooViewerRole, None) else (None, None)) \<rparr>"

definition request :: "string \<Rightarrow> string \<Rightarrow> string \<Rightarrow> string \<Rightarrow> string \<Rightarrow> Attributes" where
  "request verb ns res name grp =
     \<lparr> Verb = verb, APIGroup = ''core'', Resource = res, ResourceName = name, Namespace = ns,
       User = \<lparr> Subject = ''foo'', Groups = [grp] \<rparr> \<rparr>"

section \<open>Extension.Validate\<close>

text \<open>
  Claim C10. For every Extension, Validate returns nil exactly when the Name passes
  ValidateName, the URL is non-empty and the Namespace is non-empty; an Extension with
  an empty URL or an empty Namespace is rejected with an error whatever its other
  fields are.
\<close>

theorem Extension_Validate_iff:
  "(Extension_Validate e = None \<longleftrightarrow>
      ValidateName (ObjectMeta.Name e) = None \<and> URL e \<noteq> [] \<and> ObjectMeta.Namespace e \<noteq> [])
   \<and> (URL e = [] \<or> ObjectMeta.Namespace e = [] \<longrightarrow> Extension_Validate e \<noteq> None)"
  by (auto simp: Extension_Validate_def split: option.splits)

theorem Extension_Validate_iff_witness:
  "Extension_Validate (FixtureExtension ''ext-1'') = None
   \<and> Extension_Validate ((FixtureExtension ''ext-1'')\<lparr>URL := []\<rparr>) \<noteq> None
   \<and> Extension_Validate ((FixtureExtension ''ext-1'')\<lparr>ObjectMeta.Namespace := []\<rparr>) \<noteq> None"
  using Extension_Validate_iff [of "FixtureExtension ''ext-1''"]
        Extension_Validate_iff [of "(FixtureExtension ''ext-1'')\<lparr>URL := []\<rparr>"]
        Extension_Validate_iff [of "(FixtureExtension ''ext-1'')\<lparr>ObjectMeta.Namespace := []\<rparr>"]
  by (simp add: FixtureExtension_def ValidateName_def name_char_def)

section \<open>EventController\<close>

text \<open>
  Claim C9. When entity or check is the empty string, Get and Delete return an
  InvalidArgument error and make no store call. When both are given and the lookup
  returns no event and no error, both return a NotFound error and Delete stops after
  the lookup. Delete calls the deletion of the store only after the lookup has found
  the event.
\<close>

theorem Get_Delete_errors:
  "(entity = [] \<or> check = [] \<longrightarrow>
      Get a entity check =
        (Inl (NewErrorf InvalidArgument ''Get() requires both an entity and a check''), [])
      \<and> Delete a entity check =
        (Some (NewErrorf InvalidArgument ''Delete() requires both an entity and a check''), []))
   \<and> (entity \<noteq> [] \<and> check \<noteq> []
        \<and> GetEventByEntityCheck (EventController.store a) entity check = (None, None) \<longrightarrow>
      (\<exists>e. fst (Get a entity check) = Inl e \<and> kind e = NotFound)
      \<and> (\<exists>e. fst (Delete a entity check) = Some e \<and> kind e = NotFound)
      \<and> snd (Delete a entity check) = [StoreGetEventByEntityCheck entity check])
   \<and> (StoreDeleteEventByEntityCheck entity check \<in> set (snd (Delete a entity check)) \<longrightarrow>
      (\<exists>ev. GetEventByEntityCheck (EventController.store a) entity check = (Some ev, None))
      \<and> snd (Delete a entity check) =
          [StoreGetEventByEntityCheck entity check, StoreDeleteEventByEntityCheck entity check])"
  by (auto simp: Get_def Delete_def NewErrorf_def NewError_def split: option.splits prod.splits)

theorem Get_Delete_errors_witness:
  "Get (example_controller (\<lambda>en ch. (None, None))) [] ''check-cpu'' =
     (Inl (NewErrorf InvalidArgument ''Get() requires both an entity and a check''), [])
   \<and> (\<exists>e. fst (Delete (example_controller (\<lambda>en ch. (None, None))) ''srv-1'' ''check-cpu'') = Some e
          \<and> kind e = NotFound)
   \<and> StoreDeleteEventByEntityCheck ''srv-1'' ''check-cpu''
       \<in> set (snd (Delete (example_controller (\<lambda>en ch. (Some (example_event 1700000000 []), None)))
                     ''srv-1'' ''check-cpu''))
   \<and> (\<exists>ev. GetEventByEntityCheck
              (EventController.store (example_controller (\<lambda>en ch. (Some (example_event 1700000000 []), None))))
              ''srv-1'' ''check-cpu'' = (Some ev, None))"
proof -
  have m: "GetEventByEntityCheck (EventController.store (example_controller (\<lambda>en ch. (None, None))))
             ''srv-1'' ''check-cpu'' = (None, None)"
    by (simp add: example_controller_def NewEventController_def)
  have d: "StoreDeleteEventByEntityCheck ''srv-1'' ''check-cpu''
       \<in> set (snd (Delete (example_controller (\<lambda>en ch. (Some (example_event 1700000000 []), None)))
                     ''srv-1'' ''check-cpu''))"
    by (simp add: Delete_def example_controller_def NewEventController_def)
  from Get_Delete_errors [of "[]" "''check-cpu''" "example_controller (\<lambda>en ch. (None, None))"]
  have 1: "Get (example_controller (\<lambda>en ch. (None, None))) [] ''check-cpu'' =
     (Inl (NewErrorf InvalidArgument ''Get() requires both an entity and a check''), [])"
    by blast
  from Get_Delete_errors [of "''srv-1''" "''check-cpu''" "example_controller (\<lambda>en ch. (None, None))"] m
  have 2: "\<exists>e. fst (Delete (example_controller (\<lambda>en ch. (None, None))) ''srv-1'' ''check-cpu'') = Some e
          \<and> kind e = NotFound"
    by simp
  from Get_Delete_errors [of "''srv-1''" "''check-cpu''"
         "example_controller (\<lambda>en ch. (Some (example_event 1700000000 []), None))"] d
  have 3: "\<exists>ev. GetEventByEntityCheck
              (EventController.store (example_controller (\<lambda>en ch. (Some (example_event 1700000000 []), None))))
              ''srv-1'' ''check-cpu'' = (Some ev, None)"
    by blast
  from 1 2 d 3 show ?thesis by blast
qed

text \<open>
  Claim C8. CreateOrReplace makes no store call at all, so the event is never
  persisted. When the validation of the event succeeds, the event is published once
  to \<open>TopicEventRaw\<close> and nothing else happens; the result is nil exactly when the
  publish succeeded, and an error returned then has the code InternalErr. When the
  validation fails, nothing is published and the error returned has the code
  InvalidArgument.
\<close>

theorem CreateOrReplace_effects:
  "(\<forall>eff \<in> set (snd (CreateOrReplace a event)). \<not> is_store_call eff)
   \<and> (Event_Validate event = None \<longrightarrow>
        snd (CreateOrReplace a event) = [BusPublish TopicEventRaw event]
        \<and> (fst (CreateOrReplace a event) = None
             \<longleftrightarrow> Publish (EventController.bus a) TopicEventRaw event = None)
        \<and> (\<forall>e. fst (CreateOrReplace a event) = Some e \<longrightarrow> kind e = InternalErr))
   \<and> (Event_Validate event \<noteq> None \<longrightarrow>
        snd (CreateOrReplace a event) = []
        \<and> (\<exists>e. fst (CreateOrReplace a event) = Some e \<and> kind e = InvalidArgument))"
  by (auto simp: CreateOrReplace_def NewError_def split: option.splits)

theorem CreateOrReplace_effects_witness:
  "Event_Validate (example_event 1700000000 []) = None
   \<and> snd (CreateOrReplace (example_controller (\<lambda>en ch. (None, None))) (example_event 1700000000 []))
       = [BusPublish TopicEventRaw (example_event 1700000000 [])]
   \<and> Event_Validate ((example_event 1700000000 [])\<lparr> Entity := None \<rparr>) \<noteq> None
   \<and> snd (CreateOrReplace (example_controller (\<lambda>en ch. (None, None)))
            ((example_event 1700000000 [])\<lparr> Entity := None \<rparr>)) = []"
proof -
  have v: "Event_Validate (example_event 1700000000 []) = None"
    by (simp add: Event_Validate_def example_event_def HasCheck_def)
  have i: "Event_Validate ((example_event 1700000000 [])\<lparr> Entity := None \<rparr>) \<noteq> None"
    by (simp add: Event_Validate_def)
  from CreateOrReplace_effects [of "example_controller (\<lambda>en ch. (None, None))"
         "example_event 1700000000 []"] v
  have 1: "snd (CreateOrReplace (example_controller (\<lambda>en ch. (None, None))) (example_event 1700000000 []))
       = [BusPublish TopicEventRaw (example_event 1700000000 [])]"
    by blast
  from CreateOrReplace_effects [of "example_controller (\<lambda>en ch. (None, None))"
         "(example_event 1700000000 [])\<lparr> Entity := None \<rparr>"] i
  have 2: "snd (CreateOrReplace (example_controller (\<lambda>en ch. (None, None)))
            ((example_event 1700000000 [])\<lparr> Entity := None \<rparr>)) = []"
    by blast
  from v 1 i 2 show ?thesis by blast
qed

section \<open>Message handlers of the session\<close>




text \<open>
  Claim C2, as amended. If decoding fails, or the decoded Event has no Entity, or its
  Timestamp is 0, handleKeepalive returns an error and has no effect, so nothing is
  published. If the decoded Event has an Entity and a Timestamp other than 0, the only
  effect is one publish to \<open>TopicKeepalive\<close>; what is published is the decoded Event
  itself, with the entity subscription added to the Subscriptions of its Entity and
  nothing else changed, and handleKeepalive returns what the bus returned for it.
\<close>

theorem handleKeepalive_publishes:
  "((\<exists>err. unmarshal s payload = Inl err)
      \<or> (\<exists>ev. unmarshal s payload = Inr ev \<and> (Entity ev = None \<or> Timestamp ev = 0))
     \<longrightarrow> fst (handleKeepalive s payload) \<noteq> None \<and> snd (handleKeepalive s payload) = [])
   \<and> (unmarshal s payload = Inr ev \<and> Entity ev = Some en \<and> Timestamp ev \<noteq> 0
     \<longrightarrow> snd (handleKeepalive s payload) =
           [BusPublish TopicKeepalive
              (ev\<lparr> Entity := Some (en\<lparr> Entity.Subscriptions :=
                   addEntitySubscription (ObjectMeta.Name en) (Entity.Subscriptions en) \<rparr>) \<rparr>)]
         \<and> published_on TopicKeepalive (snd (handleKeepalive s payload)) =
           [ev\<lparr> Entity := Some (en\<lparr> Entity.Subscriptions :=
                   addEntitySubscription (ObjectMeta.Name en) (Entity.Subscriptions en) \<rparr>) \<rparr>]
         \<and> fst (handleKeepalive s payload) =
           Publish (bus s) TopicKeepalive
              (ev\<lparr> Entity := Some (en\<lparr> Entity.Subscriptions :=
                   addEntitySubscription (ObjectMeta.Name en) (Entity.Subscriptions en) \<rparr>) \<rparr>))"
  by (auto simp: handleKeepalive_def Let_def split: sum.splits option.splits)

theorem handleKeepalive_publishes_witness:
  "unmarshal example_session ''garbage'' = Inl (errors_New ''invalid character'')
   \<and> fst (handleKeepalive example_session ''garbage'') \<noteq> None
   \<and> snd (handleKeepalive example_session ''garbage'') = []
   \<and> unmarshal example_session ''keepalive'' = Inr (example_event 1700000000 [])
   \<and> published_on TopicKeepalive (snd (handleKeepalive example_session ''keepalive'')) =
       [(example_event 1700000000 [])\<lparr> Entity :=
           Some (example_entity ''srv-1'' [''linux'', ''entity:srv-1'']) \<rparr>]"
proof -
  have g: "unmarshal example_session ''garbage'' = Inl (errors_New ''invalid character'')"
    by (simp add: example_session_def example_unmarshal_def)
  have u: "unmarshal example_session ''keepalive'' = Inr (example_event 1700000000 [])"
    by (simp add: example_session_def example_unmarshal_def)
  have en: "Entity (example_event 1700000000 []) = Some (example_entity ''srv-1'' [''linux''])"
    by (simp add: example_event_def)
  have ts: "Timestamp (example_event 1700000000 []) \<noteq> 0"
    by (simp add: example_event_def)
  have sub: "(example_entity ''srv-1'' [''linux''])\<lparr> Entity.Subscriptions :=
                addEntitySubscription (ObjectMeta.Name (example_entity ''srv-1'' [''linux'']))
                  (Entity.Subscriptions (example_entity ''srv-1'' [''linux''])) \<rparr>
             = example_entity ''srv-1'' [''linux'', ''entity:srv-1'']"
    by (simp add: example_entity_def addEntitySubscription_def GetEntitySubscription_def)
  from handleKeepalive_publishes [of example_session "''garbage''"] g
  have 1: "fst (handleKeepalive example_session ''garbage'') \<noteq> None
           \<and> snd (handleKeepalive example_session ''garbage'') = []"
    by blast
  from handleKeepalive_publishes [of example_session "''keepalive''" "example_event 1700000000 []"
         "example_entity ''srv-1'' [''linux'']"] u en ts
  have "published_on TopicKeepalive (snd (handleKeepalive example_session ''keepalive'')) =
          [(example_event 1700000000 [])\<lparr> Entity := Some ((example_entity ''srv-1'' [''linux''])\<lparr>
              Entity.Subscriptions :=
                addEntitySubscription (ObjectMeta.Name (example_entity ''srv-1'' [''linux'']))
                  (Entity.Subscriptions (example_entity ''srv-1'' [''linux''])) \<rparr>) \<rparr>]"
    by blast
  with sub have 2: "published_on TopicKeepalive (snd (handleKeepalive example_session ''keepalive'')) =
       [(example_event 1700000000 [])\<lparr> Entity :=
           Some (example_entity ''srv-1'' [''linux'', ''entity:srv-1'']) \<rparr>]"
    by simp
  from g u 1 2 show ?thesis by blast
qed

text \<open>
  The claim as stated fails for a negative timestamp: the timestamp \<open>-1\<close> is not > 0,
  and the keepalive is published and nil is returned.
\<close>

theorem negative_timestamp_published_counterexample:
  "unmarshal example_session ''negative'' = Inr (example_event (- 1) [])
   \<and> \<not> 0 < sint (Timestamp (example_event (- 1) []))
   \<and> fst (handleKeepalive example_session ''negative'') = None
   \<and> published_on TopicKeepalive (snd (handleKeepalive example_session ''negative'')) =
       [(example_event (- 1) [])\<lparr> Entity := Some (example_entity ''srv-1'' [''linux'', ''entity:srv-1'']) \<rparr>]"
  by (simp add: handleKeepalive_def example_session_def example_unmarshal_def example_event_def
          example_entity_def example_bus_def addEntitySubscription_def GetEntitySubscription_def)

section \<open>Construction of a session\<close>

text \<open>The session of the examples is the one that NewSession builds.\<close>

lemma NewSession_example:
  "NewSession (example_config ''default'' [''linux'']) example_bus example_store example_unmarshal (\<lambda>r. Inr (Config r)) = (Inr example_session, [StoreGetNamespace ''default''])"
  by (simp add: NewSession_def example_session_def example_config_def example_store_def)

text \<open>
  Claim C4, as amended. When the store's GetNamespace reports the namespace of the
  configuration as not present with a NotFound error, NewSession returns an error;
  when GetNamespace fails with some other error, NewSession returns an error as well.
  In both cases the error kind is not preserved: the error returned is a new error
  without kind, whose message is
  \<open>could not retrieve the namespace '<namespace>': <message of the store's error>\<close>,
  so the message of the store's error is kept and nothing else of it.
\<close>

theorem NewSession_store_error:
  "(snd (GetNamespace st (SessionConfig.Namespace c)) = Some e \<and> kind e = NotFound \<longrightarrow>
      fst (NewSession c b st unm mar) =
        Inl (Error Untyped (''could not retrieve the namespace '' @ [CHR 0x27]
               @ SessionConfig.Namespace c @ [CHR 0x27] @ '': '' @ message e)))
   \<and> (snd (GetNamespace st (SessionConfig.Namespace c)) = Some e \<and> kind e \<noteq> NotFound \<longrightarrow>
      fst (NewSession c b st unm mar) =
        Inl (Error Untyped (''could not retrieve the namespace '' @ [CHR 0x27]
               @ SessionConfig.Namespace c @ [CHR 0x27] @ '': '' @ message e)))"
  by (auto simp: NewSession_def errors_New_def split: option.splits)

theorem NewSession_store_error_witness:
  "snd (GetNamespace example_store (SessionConfig.Namespace (example_config ''ghost'' [''linux''])))
     = Some (Error NotFound ''key not found'')
   \<and> fst (NewSession (example_config ''ghost'' [''linux'']) example_bus example_store
            example_unmarshal (\<lambda>r. Inr (Config r)))
       = Inl (Error Untyped ''could not retrieve the namespace 'ghost': key not found'')
   \<and> snd (GetNamespace (example_store\<lparr> GetNamespace := (\<lambda>n. (None, Some (Error InternalErr ''store unavailable''))) \<rparr>)
            (SessionConfig.Namespace (example_config ''default'' [''linux''])))
     = Some (Error InternalErr ''store unavailable'')
   \<and> fst (NewSession (example_config ''default'' [''linux'']) example_bus
            (example_store\<lparr> GetNamespace := (\<lambda>n. (None, Some (Error InternalErr ''store unavailable''))) \<rparr>)
            example_unmarshal (\<lambda>r. Inr (Config r)))
       = Inl (Error Untyped ''could not retrieve the namespace 'default': store unavailable'')"
proof -
  have h: "snd (GetNamespace example_store (SessionConfig.Namespace (example_config ''ghost'' [''linux''])))
     = Some (Error NotFound ''key not found'')"
    by (simp add: example_store_def example_config_def)
  have i: "snd (GetNamespace (example_store\<lparr> GetNamespace := (\<lambda>n. (None, Some (Error InternalErr ''store unavailable''))) \<rparr>)
            (SessionConfig.Namespace (example_config ''default'' [''linux''])))
     = Some (Error InternalErr ''store unavailable'')"
    by simp
  have n1: "SessionConfig.Namespace (example_config ''ghost'' [''linux'']) = ''ghost''"
    and n2: "SessionConfig.Namespace (example_config ''default'' [''linux'']) = ''default''"
    by (simp_all add: example_config_def)
  from NewSession_store_error [of example_store "example_config ''ghost'' [''linux'']"
         "Error NotFound ''key not found''" example_bus example_unmarshal "\<lambda>r. Inr (Config r)"] h
  have 1: "fst (NewSession (example_config ''ghost'' [''linux'']) example_bus example_store
            example_unmarshal (\<lambda>r. Inr (Config r)))
       = Inl (Error Untyped ''could not retrieve the namespace 'ghost': key not found'')"
    by (simp add: n1)
  from NewSession_store_error [of
         "example_store\<lparr> GetNamespace := (\<lambda>n. (None, Some (Error InternalErr ''store unavailable''))) \<rparr>"
         "example_config ''default'' [''linux'']"
         "Error InternalErr ''store unavailable''" example_bus example_unmarshal "\<lambda>r. Inr (Config r)"] i
  have 2: "fst (NewSession (example_config ''default'' [''linux'']) example_bus
            (example_store\<lparr> GetNamespace := (\<lambda>n. (None, Some (Error InternalErr ''store unavailable''))) \<rparr>)
            example_unmarshal (\<lambda>r. Inr (Config r)))
       = Inl (Error Untyped ''could not retrieve the namespace 'default': store unavailable'')"
    by (simp add: n2)
  from h 1 i 2 show ?thesis by blast
qed

text \<open>
  The claim as stated fails: for a store that reports the missing namespace \<open>ghost\<close>
  with a NotFound error, the error that NewSession returns has no kind and is not the
  store's error.
\<close>

theorem NewSession_kind_lost_counterexample:
  "snd (GetNamespace example_store (SessionConfig.Namespace (example_config ''ghost'' [''linux''])))
     = Some (Error NotFound ''key not found'')
   \<and> fst (NewSession (example_config ''ghost'' [''linux'']) example_bus example_store
            example_unmarshal (\<lambda>r. Inr (Config r)))
       = Inl (Error Untyped ''could not retrieve the namespace 'ghost': key not found'')
   \<and> kind (Error Untyped ''could not retrieve the namespace 'ghost': key not found'') \<noteq> NotFound
   \<and> Error Untyped ''could not retrieve the namespace 'ghost': key not found''
       \<noteq> Error NotFound ''key not found''"
  by (simp add: NewSession_def example_store_def example_config_def errors_New_def)

text \<open>
  Claim C5. When NewSession returns an error, its only effects are the lookup of the
  namespace in the store and the cancellation of its own context: no goroutine is
  launched, nothing subscribes to the bus, nothing is added to a ring, the connection
  is not closed and the session gauge is not incremented.
\<close>

theorem NewSession_failure_no_effect:
  "fst (NewSession c b st unm mar) = Inl err \<longrightarrow>
     snd (NewSession c b st unm mar) = [StoreGetNamespace (SessionConfig.Namespace c), ContextCancel]
     \<and> (\<forall>eff \<in> set (snd (NewSession c b st unm mar)). \<not> is_session_effect eff)"
  by (auto simp: NewSession_def split: option.splits)

theorem NewSession_failure_no_effect_witness:
  "(\<exists>err. fst (NewSession (example_config ''ghost'' [''linux'']) example_bus example_store
                 example_unmarshal (\<lambda>r. Inr (Config r))) = Inl err)
   \<and> snd (NewSession (example_config ''ghost'' [''linux'']) example_bus example_store
                 example_unmarshal (\<lambda>r. Inr (Config r))) = [StoreGetNamespace ''ghost'', ContextCancel]"
proof -
  have h: "fst (NewSession (example_config ''ghost'' [''linux'']) example_bus example_store
                 example_unmarshal (\<lambda>r. Inr (Config r)))
           = Inl (Error Untyped ''could not retrieve the namespace 'ghost': key not found'')"
    by (simp add: NewSession_def example_store_def example_config_def errors_New_def)
  from NewSession_failure_no_effect [of "example_config ''ghost'' [''linux'']" example_bus
         example_store example_unmarshal "\<lambda>r. Inr (Config r)"] h
  show ?thesis by (simp add: example_config_def)
qed

section \<open>RBAC authorizer: resource names\<close>

lemma authorize_bindings_single_rule:
  assumes "\<forall>b \<in> set bs. matchesUser (User attrs) (Subjects b) \<longrightarrow>
             (\<exists>role. resolveRoleRef st b = (Some role, None) \<and> Rules role = [rule])"
  shows "authorize_bindings st attrs bs =
           Inr (if (\<exists>b \<in> set bs. matchesUser (User attrs) (Subjects b)) \<and> ruleAllows attrs rule
                then Allow else Deny)"
  using assms by (induction bs) auto

text \<open>
  Claim C7, as amended. When the candidate bindings are listed without error, every
  binding that matches the user resolves to a role with the single rule \<open>rule\<close>, at
  least one binding matches, and the ResourceNames of the rule are not empty, the
  authorizer allows the request if and only if the verb, the resource and the API
  group of the request match the rule and the ResourceName of the request is an
  element of ResourceNames or ResourceNames contains \<open>*\<close>; otherwise it denies. A list
  request, whose ResourceName is empty, is denied when ResourceNames contains neither
  \<open>*\<close> nor the empty string.
\<close>

theorem Authorize_resource_names:
  assumes bindings: "candidate_bindings st attrs = Inr bs"
    and resolved: "\<forall>b \<in> set bs. matchesUser (User attrs) (Subjects b) \<longrightarrow>
             (\<exists>role. resolveRoleRef st b = (Some role, None) \<and> Rules role = [rule])"
    and matching: "\<exists>b \<in> set bs. matchesUser (User attrs) (Subjects b)"
    and names: "ResourceNames rule \<noteq> []"
  shows "Authorize st attrs =
           Inr (if (Verb attrs \<in> set (Verbs rule) \<or> ''*'' \<in> set (Verbs rule))
                   \<and> (Resource attrs \<in> set (Resources rule) \<or> ''*'' \<in> set (Resources rule))
                   \<and> (APIGroups rule = [] \<or> ''*'' \<in> set (APIGroups rule)
                        \<or> APIGroup attrs \<in> set (APIGroups rule))
                   \<and> (ResourceName attrs \<in> set (ResourceNames rule)
                        \<or> ''*'' \<in> set (ResourceNames rule))
                then Allow else Deny)
         \<and> (ResourceName attrs = [] \<and> [] \<notin> set (ResourceNames rule)
              \<and> ''*'' \<notin> set (ResourceNames rule) \<longrightarrow> Authorize st attrs = Inr Deny)"
proof -
  have "Authorize st attrs = Inr (if ruleAllows attrs rule then Allow else Deny)"
    using bindings matching authorize_bindings_single_rule [OF resolved]
    by (simp add: Authorize_def)
  then show ?thesis
    using names by (auto simp: ruleAllows_def)
qed

lemma seedStore_candidates:
  "candidate_bindings seedStore (request verb ''default'' res name grp) =
     Inr [group_binding ''admin'' [] ''ClusterRole'' ''admin'' ''local-admins'',
          group_binding ''admin'' ''default'' ''ClusterRole'' ''admin'' ''admins'',
          group_binding ''edit'' ''default'' ''ClusterRole'' ''edit'' ''editors'',
          group_binding ''view'' ''default'' ''ClusterRole'' ''view'' ''viewers'',
          group_binding ''foo-viewer'' ''default'' ''Role'' ''foo-viewer'' ''foo-viewers'']"
  by (simp add: candidate_bindings_def seedStore_def request_def)

lemma seedStore_foo_viewers_resolved:
  "\<forall>b \<in> set [group_binding ''admin'' [] ''ClusterRole'' ''admin'' ''local-admins'',
          group_binding ''admin'' ''default'' ''ClusterRole'' ''admin'' ''admins'',
          group_binding ''edit'' ''default'' ''ClusterRole'' ''edit'' ''editors'',
          group_binding ''view'' ''default'' ''ClusterRole'' ''view'' ''viewers'',
          group_binding ''foo-viewer'' ''default'' ''Role'' ''foo-viewer'' ''foo-viewers''].
     matchesUser (User (request verb ''default'' res name ''foo-viewers'')) (Subjects b) \<longrightarrow>
       (\<exists>role. resolveRoleRef seedStore b = (Some role, None)
          \<and> Rules role = [\<lparr> Verbs = [''get''], Resources = [''checks''],
                             ResourceNames = [''foo''], APIGroups = [] \<rparr>])"
  by (simp add: matchesUser_def group_binding_def request_def resolveRoleRef_def seedStore_def
        fooViewerRole_def)

lemma seedStore_foo_viewers_matching:
  "\<exists>b \<in> set [group_binding ''admin'' [] ''ClusterRole'' ''admin'' ''local-admins'',
          group_binding ''admin'' ''default'' ''ClusterRole'' ''admin'' ''admins'',
          group_binding ''edit'' ''default'' ''ClusterRole'' ''edit'' ''editors'',
          group_binding ''view'' ''default'' ''ClusterRole'' ''view'' ''viewers'',
          group_binding ''foo-viewer'' ''default'' ''Role'' ''foo-viewer'' ''foo-viewers''].
     matchesUser (User (request verb ''default'' res name ''foo-viewers'')) (Subjects b)"
  by (simp add: matchesUser_def group_binding_def request_def)



lemma seedStore_foo_viewers_rule:
  "ResourceNames \<lparr> Verbs = [''get''], Resources = [''checks''],
                     ResourceNames = [''foo''], APIGroups = [] \<rparr> \<noteq> []"
  by simp


theorem Authorize_resource_names_witness:
  "Authorize seedStore (request ''get'' ''default'' ''checks'' ''foo'' ''foo-viewers'') = Inr Allow
   \<and> Authorize seedStore (request ''get'' ''default'' ''checks'' ''bar'' ''foo-viewers'') = Inr Deny
   \<and> Authorize seedStore (request ''list'' ''default'' ''checks'' [] ''foo-viewers'') = Inr Deny"
proof -
  have 1: "Authorize seedStore (request ''get'' ''default'' ''checks'' ''foo'' ''foo-viewers'') = Inr Allow"
    using Authorize_resource_names [OF
            seedStore_candidates [of "''get''" "''checks''" "''foo''" "''foo-viewers''"]
            seedStore_foo_viewers_resolved [of "''get''" "''checks''" "''foo''"]
            seedStore_foo_viewers_matching [of "''get''" "''checks''" "''foo''"]
            seedStore_foo_viewers_rule, THEN conjunct1]
    by (simp add: request_def)
  have 2: "Authorize seedStore (request ''get'' ''default'' ''checks'' ''bar'' ''foo-viewers'') = Inr Deny"
    using Authorize_resource_names [OF
            seedStore_candidates [of "''get''" "''checks''" "''bar''" "''foo-viewers''"]
            seedStore_foo_viewers_resolved [of "''get''" "''checks''" "''bar''"]
            seedStore_foo_viewers_matching [of "''get''" "''checks''" "''bar''"]
            seedStore_foo_viewers_rule, THEN conjunct1]
    by (simp add: request_def)
  have 3: "Authorize seedStore (request ''list'' ''default'' ''checks'' [] ''foo-viewers'') = Inr Deny"
    using Authorize_resource_names [OF
            seedStore_candidates [of "''list''" "''checks''" "[]" "''foo-viewers''"]
            seedStore_foo_viewers_resolved [of "''list''" "''checks''" "[]"]
            seedStore_foo_viewers_matching [of "''list''" "''checks''" "[]"]
            seedStore_foo_viewers_rule, THEN conjunct2]
    by (simp add: request_def)
  from 1 2 3 show ?thesis by blast
qed


lemma matchesUser_group_binding:
  "matchesUser (User (request verb ns res name grp)) (Subjects (group_binding n bns ty role g))
     \<longleftrightarrow> g = grp"
  by (simp add: matchesUser_def request_def group_binding_def)

lemma resolve_foo_viewer:
  "resolveRoleRef seedStore (group_binding ''foo-viewer'' ''default'' ''Role'' ''foo-viewer'' ''foo-viewers'')
     = (Some fooViewerRole, None)"
  by (simp add: resolveRoleRef_def group_binding_def seedStore_def)

text \<open>
  The claim as stated fails: under the seeded store, the only binding that matches
  the group foo-viewers resolves to the role foo-viewer, whose rule has the
  ResourceNames \<open>[foo]\<close>; the request to update the check \<open>foo\<close> has its ResourceName
  in that list, and it is denied, because the rule grants the verb \<open>get\<close> only.
\<close>

theorem Authorize_update_foo_counterexample:
  "filter (\<lambda>b. matchesUser (User (request ''update'' ''default'' ''checks'' ''foo'' ''foo-viewers''))
                   (Subjects b))
     [group_binding ''admin'' [] ''ClusterRole'' ''admin'' ''local-admins'',
      group_binding ''admin'' ''default'' ''ClusterRole'' ''admin'' ''admins'',
      group_binding ''edit'' ''default'' ''ClusterRole'' ''edit'' ''editors'',
      group_binding ''view'' ''default'' ''ClusterRole'' ''view'' ''viewers'',
      group_binding ''foo-viewer'' ''default'' ''Role'' ''foo-viewer'' ''foo-viewers'']
     = [group_binding ''foo-viewer'' ''default'' ''Role'' ''foo-viewer'' ''foo-viewers'']
   \<and> resolveRoleRef seedStore (group_binding ''foo-viewer'' ''default'' ''Role'' ''foo-viewer'' ''foo-viewers'')
       = (Some fooViewerRole, None)
   \<and> map ResourceNames (Rules fooViewerRole) = [[''foo'']]
   \<and> ResourceName (request ''update'' ''default'' ''checks'' ''foo'' ''foo-viewers'') \<in> set [''foo'']
   \<and> Authorize seedStore (request ''update'' ''default'' ''checks'' ''foo'' ''foo-viewers'') = Inr Deny"
proof -
  have "ResourceName (request ''update'' ''default'' ''checks'' ''foo'' ''foo-viewers'') \<in> set [''foo'']"
    by (simp add: request_def)
  moreover have "map ResourceNames (Rules fooViewerRole) = [[''foo'']]"
    by (simp add: fooViewerRole_def)
  moreover have "\<not> ruleAllows (request ''update'' ''default'' ''checks'' ''foo'' ''foo-viewers'')
           \<lparr> Verbs = [''get''], Resources = [''checks''], ResourceNames = [''foo''], APIGroups = [] \<rparr>"
    by (simp add: ruleAllows_def request_def)
  then have "Authorize seedStore (request ''update'' ''default'' ''checks'' ''foo'' ''foo-viewers'') = Inr Deny"
    by (simp add: Authorize_def seedStore_candidates matchesUser_group_binding resolve_foo_viewer
          fooViewerRole_def)
  moreover have "filter (\<lambda>b. matchesUser (User (request ''update'' ''default'' ''checks'' ''foo'' ''foo-viewers''))
                   (Subjects b))
     [group_binding ''admin'' [] ''ClusterRole'' ''admin'' ''local-admins'',
      group_binding ''admin'' ''default'' ''ClusterRole'' ''admin'' ''admins'',
      group_binding ''edit'' ''default'' ''ClusterRole'' ''edit'' ''editors'',
      group_binding ''view'' ''default'' ''ClusterRole'' ''view'' ''viewers'',
      group_binding ''foo-viewer'' ''default'' ''Role'' ''foo-viewer'' ''foo-viewers'']
     = [group_binding ''foo-viewer'' ''default'' ''Role'' ''foo-viewer'' ''foo-viewers'']"
    by (simp add: matchesUser_group_binding)
  ultimately show ?thesis
    using resolve_foo_viewer by blast
qed


end
